theory Spec2Isabelle
  imports Main "HOL-Library.Word"
begin

unbundle bit_operations_syntax

section \<open>VR4300 data cache (src/vr4300/dcache.c)\<close>

text \<open>
  The cache is an array of 512 lines; a line is 16 bytes of data and a 32-bit metadata
  word. The C functions take a pointer to a line: here a pointer into
  \<open>dcache->lines\<close> is the index of the line, and \<open>NULL\<close> is \<open>None\<close>.
  Every function that writes through the pointer returns the updated cache.
\<close>

type_synonym uint8_t = "8 word"
type_synonym uint32_t = "32 word"
type_synonym uint64_t = "64 word"

text \<open>
  Modelled from the spec: \<open>struct vr4300_dcache_line\<close> and \<open>struct vr4300_dcache\<close>
  of vr4300/dcache.h (16 bytes of data plus a metadata word holding the tag in its upper
  20 bits, the dirty bit and the valid bit; 512 lines per cache).
\<close>

record vr4300_dcache_line =
  data :: "uint8_t list"
  metadata :: uint32_t

record vr4300_dcache =
  lines :: "vr4300_dcache_line list"

text \<open>The array bound of \<open>lines[512]\<close> and the size of \<open>data[16]\<close>.\<close>

definition dcache_wf :: "vr4300_dcache \<Rightarrow> bool" where
  "dcache_wf dcache \<longleftrightarrow> length (lines dcache) = 512"

text \<open>\<open>dcache->lines + (vaddr >> 4 & 0x1FF)\<close>: the index of the line.\<close>

definition get_line :: "vr4300_dcache \<Rightarrow> uint64_t \<Rightarrow> nat" where
  "get_line dcache vaddr = unat (drop_bit 4 vaddr AND 0x1FF)"

definition get_line_const :: "vr4300_dcache \<Rightarrow> uint64_t \<Rightarrow> nat" where
  "get_line_const dcache vaddr = unat (drop_bit 4 vaddr AND 0x1FF)"

text \<open>Reading and writing through a line pointer.\<close>

definition deref :: "vr4300_dcache \<Rightarrow> nat \<Rightarrow> vr4300_dcache_line" where
  "deref dcache p = lines dcache ! p"

definition store :: "vr4300_dcache \<Rightarrow> nat \<Rightarrow> vr4300_dcache_line \<Rightarrow> vr4300_dcache" where
  "store dcache p line = dcache\<lparr>lines := (lines dcache)[p := line]\<rparr>"

definition get_tag :: "vr4300_dcache_line \<Rightarrow> uint32_t" where
  "get_tag line = drop_bit 12 (metadata line)"

definition invalidate_line :: "vr4300_dcache_line \<Rightarrow> vr4300_dcache_line" where
  "invalidate_line line = line\<lparr>metadata := metadata line AND NOT 0x1\<rparr>"

definition is_dirty :: "vr4300_dcache_line \<Rightarrow> bool" where
  "is_dirty line \<longleftrightarrow> metadata line AND 0x2 = 0x2"

definition is_valid :: "vr4300_dcache_line \<Rightarrow> bool" where
  "is_valid line \<longleftrightarrow> metadata line AND 0x1 = 0x1"

definition set_clean :: "vr4300_dcache_line \<Rightarrow> vr4300_dcache_line" where
  "set_clean line = line\<lparr>metadata := metadata line AND NOT 0x2\<rparr>"

definition set_dirty :: "vr4300_dcache_line \<Rightarrow> vr4300_dcache_line" where
  "set_dirty line = line\<lparr>metadata := metadata line OR 0x2\<rparr>"

text \<open>\<open>tag << 12\<close> is computed in 32 bits: the upper 12 bits of \<open>tag\<close> are lost.\<close>

definition set_tag :: "vr4300_dcache_line \<Rightarrow> uint32_t \<Rightarrow> vr4300_dcache_line" where
  "set_tag line tag = line\<lparr>metadata := push_bit 12 tag OR (metadata line AND 0x1)\<rparr>"

definition validate_line :: "vr4300_dcache_line \<Rightarrow> uint32_t \<Rightarrow> vr4300_dcache_line" where
  "validate_line line tag = line\<lparr>metadata := push_bit 12 tag OR 0x1\<rparr>"

text \<open>\<open>memcpy(line->data, data, sizeof(line->data))\<close> copies the first 16 bytes.\<close>

definition vr4300_dcache_fill ::
  "vr4300_dcache \<Rightarrow> uint64_t \<Rightarrow> uint32_t \<Rightarrow> uint8_t list \<Rightarrow> vr4300_dcache" where
  "vr4300_dcache_fill dcache vaddr paddr bytes =
     (let p = get_line dcache vaddr;
          line = deref dcache p;
          line = line\<lparr>data := take 16 bytes\<rparr>;
          line = validate_line line (drop_bit 4 paddr);
          line = set_clean line
      in store dcache p line)"

definition vr4300_dcache_get_tag :: "vr4300_dcache_line \<Rightarrow> uint32_t" where
  "vr4300_dcache_get_tag line = get_tag line"

definition vr4300_dcache_init :: "vr4300_dcache \<Rightarrow> vr4300_dcache" where
  "vr4300_dcache_init dcache = dcache"

definition vr4300_dcache_invalidate :: "vr4300_dcache \<Rightarrow> uint64_t \<Rightarrow> vr4300_dcache" where
  "vr4300_dcache_invalidate dcache vaddr =
     (let p = get_line dcache vaddr
      in store dcache p (invalidate_line (deref dcache p)))"

definition vr4300_dcache_invalidate_hit ::
  "vr4300_dcache \<Rightarrow> uint64_t \<Rightarrow> uint32_t \<Rightarrow> vr4300_dcache" where
  "vr4300_dcache_invalidate_hit dcache vaddr paddr =
     (let p = get_line dcache vaddr;
          line = deref dcache p;
          ptag = get_tag line
      in if ptag = drop_bit 4 paddr \<and> is_valid line
         then store dcache p (invalidate_line line)
         else dcache)"

definition vr4300_dcache_probe ::
  "vr4300_dcache \<Rightarrow> uint64_t \<Rightarrow> uint32_t \<Rightarrow> nat option" where
  "vr4300_dcache_probe dcache vaddr paddr =
     (let p = get_line_const dcache vaddr;
          line = deref dcache p;
          ptag = get_tag line
      in if ptag = drop_bit 4 paddr \<and> is_valid line then Some p else None)"

definition vr4300_dcache_set_tag ::
  "vr4300_dcache \<Rightarrow> uint64_t \<Rightarrow> uint32_t \<Rightarrow> vr4300_dcache" where
  "vr4300_dcache_set_tag dcache vaddr tag =
     (let p = get_line dcache vaddr
      in store dcache p (set_tag (deref dcache p) tag))"

definition vr4300_dcache_should_flush_line ::
  "vr4300_dcache \<Rightarrow> uint64_t \<Rightarrow> nat option" where
  "vr4300_dcache_should_flush_line dcache vaddr =
     (let p = get_line dcache vaddr;
          line = deref dcache p
      in if is_dirty line \<and> is_valid line then Some p else None)"

text \<open>
  A write of a 16-byte block to memory. \<open>vr4300_dcache_wb_invalidate\<close> returns the
  updated cache and the memory writes it performed, in order: the source performs none
  (its body holds \<open>// TODO: Writeback.\<close> where the write would be).
\<close>

datatype mem_write = Mem_write uint32_t "uint8_t list"

definition vr4300_dcache_wb_invalidate ::
  "vr4300_dcache \<Rightarrow> uint64_t \<Rightarrow> vr4300_dcache \<times> mem_write list" where
  "vr4300_dcache_wb_invalidate dcache vaddr =
     (let p = get_line dcache vaddr;
          line = deref dcache p
      in if is_valid line
         then (store dcache p (invalidate_line line), [])
         else (dcache, []))"

section \<open>Log file (src/common/debug.c, src/common/debug.h)\<close>

text \<open>
  A \<open>FILE *\<close> is \<open>None\<close> when it is \<open>NULL\<close> and \<open>Some\<close> of an open stream
  otherwise. The process state the translated functions share is the global \<open>log_fp\<close>
  and the calls they make to procedures outside the translated sources (output, closing,
  cleanup), recorded in call order.
\<close>

datatype FILE = FILE nat

datatype printf_arg = Arg_str "string option" | Arg_byte uint8_t

text \<open>
  Modelled from the spec: \<open>struct rom_file\<close> of os/common/rom_file.h and
  \<open>struct save_file\<close> of os/common/save_file.h (a byte range and its size).
\<close>

record rom_file =
  rom_ptr :: "uint8_t list"
  rom_size :: nat

record save_file =
  save_ptr :: "uint8_t list"
  save_size :: nat

datatype event =
    Printf string "printf_arg list"
  | Fprintf FILE string "printf_arg list"
  | Fclose "FILE option"
  | Print_command_line_usage "string option"
  | Cen64_alloc_cleanup
  | Cen64_free
  | Close_rom_file rom_file
  | Device_destroy
  | Cen64_gl_window_thread
  | Cen64_thread_join

record world =
  log_fp :: "FILE option"
  events :: "event list"

definition emit :: "event \<Rightarrow> world \<Rightarrow> world" where
  "emit e w = w\<lparr>events := events w @ [e]\<rparr>"

definition printf :: "string \<Rightarrow> printf_arg list \<Rightarrow> world \<Rightarrow> world" where
  "printf fmt args w = emit (Printf fmt args) w"

text \<open>\<open>log_fp\<close> has static storage: it is \<open>NULL\<close> when the process starts.\<close>

definition initial_world :: world where
  "initial_world = \<lparr>log_fp = None, events = []\<rparr>"

text \<open>\<open>fopen(path, "w")\<close> is a parameter: the stream it returns, or \<open>NULL\<close>.\<close>

definition open_log_file :: "(string \<Rightarrow> FILE option) \<Rightarrow> string \<Rightarrow> world \<Rightarrow> int \<times> world" where
  "open_log_file fopen path w =
     (let w = w\<lparr>log_fp := fopen path\<rparr>
      in if log_fp w = None then (1, w) else (0, w))"

definition close_log_file :: "world \<Rightarrow> world" where
  "close_log_file w = (if log_fp w = None then emit (Fclose (log_fp w)) w else w)"

text \<open>The macro \<open>LOG(...)\<close>: its arguments are the format and the values to print.\<close>

definition LOG :: "string \<Rightarrow> printf_arg list \<Rightarrow> world \<Rightarrow> world" where
  "LOG fmt args w =
     (case log_fp w of
        Some fp \<Rightarrow> emit (Fprintf fp fmt args) w
      | None \<Rightarrow> w)"

section \<open>Entry point (src/cen64.c)\<close>

text \<open>
  Modelled from the spec: \<open>struct controller\<close> and its pak kinds (bus/controller.h),
  \<open>struct cart_db_entry\<close> (device/cart_db.h), \<open>struct cen64_options\<close>
  (device/options.h) and \<open>struct cen64_device\<close> (device/device.h), each with the
  fields that cen64.c reads or writes. A \<open>char *\<close> is \<open>None\<close> when it is \<open>NULL\<close>.
  The array that \<open>options.controller\<close> points to is the field \<open>controller\<close>.
\<close>

datatype pak_type = PAK_NONE | PAK_MEM | PAK_RUMBLE | PAK_TRANSFER

record controller =
  pak :: pak_type
  mempak_path :: "string option"
  mempak_save :: save_file
  tpak_rom_path :: "string option"
  tpak_rom :: rom_file
  tpak_save_path :: "string option"
  tpak_save :: save_file

record cart_db_entry =
  rom_id :: string
  regions :: string
  description :: string

record cen64_options =
  ddipl_path :: "string option"
  ddrom_path :: "string option"
  pifrom_path :: "string option"
  cart_path :: "string option"
  log_path :: "string option"
  eeprom_path :: "string option"
  eeprom_size :: nat
  sram_path :: "string option"
  flashram_path :: "string option"
  no_audio :: bool
  no_video :: bool
  multithread :: bool
  controller :: "controller list"

record cen64_device =
  running :: bool
  device_multithread :: bool

text \<open>The four ROM images that \<open>cen64_main\<close> holds and \<open>load_roms\<close> fills.\<close>

record roms =
  ddipl :: rom_file
  ddrom :: rom_file
  pifrom :: rom_file
  cart :: rom_file

text \<open>
  The functions and tables that cen64.c uses and that are defined outside the translated
  sources are parameters. A function with output parameters returns them after its
  status; \<open>created\<close> is the flag that \<open>open_save_file\<close> stores through its last
  argument; \<open>cen64_alloc\<close> holds when the call returns a block, and
  \<open>device_create\<close> returns \<open>None\<close> for \<open>NULL\<close>.
\<close>

record env =
  cart_db_is_well_formed :: bool
  cen64_alloc_init :: int
  default_cen64_options :: cen64_options
  parse_options :: "cen64_options \<Rightarrow> int \<Rightarrow> string list \<Rightarrow> int \<times> cen64_options"
  open_rom_file :: "string option \<Rightarrow> int \<times> rom_file"
  sha1 :: "uint8_t list \<Rightarrow> uint8_t list"
  sha1_dd_ipl :: "uint8_t list"
  sha1_pifrom_ntsc :: "uint8_t list"
  sha1_pifrom_ntsc_j :: "uint8_t list"
  sha1_pifrom_pal :: "uint8_t list"
  fopen :: "string \<Rightarrow> FILE option"
  cart_db_get_entry :: "uint8_t list \<Rightarrow> cart_db_entry option"
  open_save_file :: "string \<Rightarrow> nat \<Rightarrow> int \<times> save_file \<times> bool"
  open_gb_save :: "string \<Rightarrow> int \<times> save_file"
  controller_pak_format :: "uint8_t list \<Rightarrow> uint8_t list"
  gb_init :: "controller \<Rightarrow> controller"
  cen64_alloc :: bool
  device_create ::
    "roms \<Rightarrow> save_file \<Rightarrow> save_file \<Rightarrow> save_file \<Rightarrow> controller list \<Rightarrow> bool \<Rightarrow> bool
       \<Rightarrow> cen64_device option"
  cen64_thread_create :: int

text \<open>\<open>EXIT_SUCCESS\<close> and \<open>EXIT_FAILURE\<close> of stdlib.h.\<close>

definition EXIT_SUCCESS :: int where
  "EXIT_SUCCESS = 0"

definition EXIT_FAILURE :: int where
  "EXIT_FAILURE = 1"

text \<open>
  Modelled from the spec: \<open>SHA1_SIZE\<close> (device/sha1.h, the 20 bytes of a digest, as in
  \<open>sha1_calc[20]\<close>), \<open>FLASHRAM_SIZE\<close> (128 KiB) and \<open>MEMPAK_SIZE\<close> (32 KiB).
\<close>

definition SHA1_SIZE :: nat where
  "SHA1_SIZE = 20"

definition FLASHRAM_SIZE :: nat where
  "FLASHRAM_SIZE = 0x20000"

definition MEMPAK_SIZE :: nat where
  "MEMPAK_SIZE = 0x8000"

definition zero_rom_file :: rom_file where
  "zero_rom_file = \<lparr>rom_ptr = [], rom_size = 0\<rparr>"

definition zero_save_file :: save_file where
  "zero_save_file = \<lparr>save_ptr = [], save_size = 0\<rparr>"

definition zero_controller :: controller where
  "zero_controller = \<lparr>pak = PAK_NONE, mempak_path = None, mempak_save = zero_save_file,
     tpak_rom_path = None, tpak_rom = zero_rom_file, tpak_save_path = None,
     tpak_save = zero_save_file\<rparr>"

text \<open>\<open>memcmp(sha1_calc, good_sum, SHA1_SIZE) == 0\<close> is 1 or 0.\<close>

definition validate_sha :: "env \<Rightarrow> rom_file \<Rightarrow> uint8_t list \<Rightarrow> int" where
  "validate_sha env rom good_sum =
     (let sha1_calc = sha1 env (take (rom_size rom) (rom_ptr rom))
      in if take SHA1_SIZE sha1_calc = take SHA1_SIZE good_sum then 1 else 0)"

text \<open>\<open>if (path) close_rom_file(file);\<close>\<close>

definition close_if :: "string option \<Rightarrow> rom_file \<Rightarrow> world \<Rightarrow> world" where
  "close_if path file w = (if path \<noteq> None then emit (Close_rom_file file) w else w)"

definition load_roms ::
  "env \<Rightarrow> string option \<Rightarrow> string option \<Rightarrow> string option \<Rightarrow> string option \<Rightarrow> roms \<Rightarrow> world
     \<Rightarrow> int \<times> roms \<times> world" where
  "load_roms env ddipl_path' ddrom_path' pifrom_path' cart_path' r w =
     (let r = r\<lparr>ddipl := zero_rom_file\<rparr>;
          (st, r) = (if ddipl_path' \<noteq> None
                     then (let (st, f) = open_rom_file env ddipl_path' in (st, r\<lparr>ddipl := f\<rparr>))
                     else (0, r))
      in if st \<noteq> 0 then
           (1, r, printf ''Failed to load DD IPL ROM: %s.\<newline>'' [Arg_str ddipl_path'] w)
         else
      let w = (if ddipl_path' \<noteq> None \<and> validate_sha env (ddipl r) (sha1_dd_ipl env) = 0
               then printf ''Invalid SHA1 on DD IPL.\<newline>'' [] w else w);
          (st, r) = (if ddrom_path' \<noteq> None
                     then (let (st, f) = open_rom_file env ddrom_path' in (st, r\<lparr>ddrom := f\<rparr>))
                     else (0, r))
      in if st \<noteq> 0 then
           (2, r, close_if ddipl_path' (ddipl r)
                    (printf ''Failed to load DD ROM: %s.\<newline>'' [Arg_str ddrom_path'] w))
         else
      let (st, f) = open_rom_file env pifrom_path';
          r = r\<lparr>pifrom := f\<rparr>
      in if st \<noteq> 0 then
           (3, r, close_if ddrom_path' (ddrom r) (close_if ddipl_path' (ddipl r)
                    (printf ''Failed to load PIF ROM: %s.\<newline>'' [Arg_str pifrom_path'] w)))
         else
      let w = (if validate_sha env (pifrom r) (sha1_pifrom_ntsc env) \<noteq> 0
                 then printf ''Using NTSC-U PIFROM\<newline>'' [] w
               else if validate_sha env (pifrom r) (sha1_pifrom_ntsc_j env) \<noteq> 0
                 then printf ''Using NTSC-J PIFROM\<newline>'' [] w
               else if validate_sha env (pifrom r) (sha1_pifrom_pal env) \<noteq> 0
                 then printf ''Using PAL PIFROM\<newline>'' [] w
               else printf ''Unknown or corrupted PIFROM: %s.\<newline>'' [Arg_str pifrom_path'] w);
          (st, r) = (if cart_path' \<noteq> None
                     then (let (st, f) = open_rom_file env cart_path' in (st, r\<lparr>cart := f\<rparr>))
                     else (0, r))
      in if st \<noteq> 0 then
           (4, r, emit (Close_rom_file (pifrom r)) (close_if ddrom_path' (ddrom r)
                    (close_if ddipl_path' (ddipl r)
                      (printf ''Failed to load cart: %s.\<newline>'' [Arg_str cart_path'] w))))
         else (0, r, w))"

text \<open>
  The body of the loop of \<open>load_paks\<close> for controller \<open>c\<close>: \<open>Inl\<close> is the early
  \<open>return -1\<close>, \<open>Inr\<close> goes on to the next controller.
\<close>

definition load_pak :: "env \<Rightarrow> controller \<Rightarrow> world \<Rightarrow> (int \<times> controller \<times> world) + (controller \<times> world)" where
  "load_pak env c w =
     (if pak c = PAK_MEM \<and> mempak_path c \<noteq> None then
        (let (st, save, created) = open_save_file env (the (mempak_path c)) MEMPAK_SIZE;
             c = c\<lparr>mempak_save := save\<rparr>
         in if st \<noteq> 0 then
              Inl (- 1, c, printf ''Can't open mempak file %s\<newline>'' [Arg_str (mempak_path c)] w)
            else if created then
              Inr (c\<lparr>mempak_save :=
                     save\<lparr>save_ptr := controller_pak_format env (save_ptr save)\<rparr>\<rparr>, w)
            else Inr (c, w))
      else if pak c = PAK_TRANSFER then
        (let (st, c, w) =
               (if tpak_rom_path c \<noteq> None
                then (let (st, f) = open_rom_file env (tpak_rom_path c)
                      in (st, c\<lparr>tpak_rom := f\<rparr>, w))
                else (0, c, printf ''The game will run but probably won't do anything interest\<newline>'' []
                              (printf ''No ROM supplied for transfer pak.\<newline>'' [] w)))
         in if st \<noteq> 0 then
              Inl (- 1, c, printf ''Can't open transfer pak ROM\<newline>'' [] w)
            else
         let (st, c, w) =
               (if tpak_save_path c \<noteq> None
                then (let (st, f) = open_gb_save env (the (tpak_save_path c))
                      in (st, c\<lparr>tpak_save := f\<rparr>, w))
                else (0, c, printf ''No save supplied for transfer pak. Just FYI.\<newline>'' [] w))
         in if st \<noteq> 0 then
              Inl (- 1, c, printf ''Can't open transfer pak save\<newline>'' [] w)
            else Inr (gb_init env c, w))
      else Inr (c, w))"

text \<open>\<open>for (i = 0; i < 4; ++i)\<close> over the array of controllers.\<close>

function load_paks_loop ::
  "env \<Rightarrow> nat \<Rightarrow> controller list \<Rightarrow> world \<Rightarrow> int \<times> controller list \<times> world" where
  "load_paks_loop env i ctrl w =
     (if i < 4 then
        (case load_pak env (ctrl ! i) w of
           Inl (st, c, w') \<Rightarrow> (st, ctrl[i := c], w')
         | Inr (c, w') \<Rightarrow> load_paks_loop env (i + 1) (ctrl[i := c]) w')
      else (0, ctrl, w))"
  by pat_completeness auto
termination
  by (relation "measure (\<lambda>(env, i, ctrl, w). 4 - i)") auto

declare load_paks_loop.simps [simp del]

definition load_paks :: "env \<Rightarrow> controller list \<Rightarrow> world \<Rightarrow> int \<times> controller list \<times> world" where
  "load_paks env ctrl w = load_paks_loop env 0 ctrl w"

text \<open>
  \<open>run_device\<close>: the emulation thread that \<open>cen64_thread_create\<close> starts runs
  \<open>device_run\<close> beside this function; only the calls of this thread are recorded.
\<close>

definition run_device :: "env \<Rightarrow> cen64_device \<Rightarrow> bool \<Rightarrow> world \<Rightarrow> int \<times> cen64_device \<times> world" where
  "run_device env device no_video' w =
     (let device = device\<lparr>running := True\<rparr>
      in if cen64_thread_create env \<noteq> 0 then
           (1, device, emit Device_destroy
                         (printf ''Failed to create the main emulation thread.\<newline>'' [] w))
         else
      let w = (if \<not> no_video' then emit Cen64_gl_window_thread w else w);
          device = device\<lparr>running := False\<rparr>;
          w = emit Cen64_thread_join w
      in (0, device, w))"

text \<open>\<open>argv[i]\<close>, which is \<open>NULL\<close> past the last argument.\<close>

definition argv_at :: "string list \<Rightarrow> nat \<Rightarrow> string option" where
  "argv_at argv i = (if i < length argv then Some (argv ! i) else None)"

text \<open>
  \<open>if (path != NULL && open_save_file(path, size, &file, NULL))\<close>: the status and the
  file afterwards.
\<close>

definition open_save_opt :: "env \<Rightarrow> string option \<Rightarrow> nat \<Rightarrow> int \<times> save_file \<times> bool" where
  "open_save_opt env path sz =
     (case path of
        None \<Rightarrow> (0, zero_save_file, False)
      | Some p \<Rightarrow> open_save_file env p sz)"

text \<open>
  \<open>cen64_main\<close> from the call of \<open>load_paks\<close> to its end (lines 99 to 165): the
  controller paks and the save files, the device, and the release of the resources.
  \<open>options\<close>, \<open>r\<close> (the four ROM images) and \<open>w\<close> are the locals of
  \<open>cen64_main\<close> at that point.
\<close>

definition cen64_main_from_paks :: "env \<Rightarrow> cen64_options \<Rightarrow> roms \<Rightarrow> world \<Rightarrow> int \<times> world" where
  "cen64_main_from_paks env options r w =
     (let (st, ctrl, w) = load_paks env (controller options) w
      in if st \<noteq> 0 then (EXIT_FAILURE, emit Cen64_alloc_cleanup w)
         else
      let (st, eeprom, created) = open_save_opt env (eeprom_path options) (eeprom_size options)
      in if st \<noteq> 0 then (EXIT_FAILURE, emit Cen64_alloc_cleanup w)
         else
      let (st, sram, created) = open_save_opt env (sram_path options) 0x8000
      in if st \<noteq> 0 then (EXIT_FAILURE, emit Cen64_alloc_cleanup w)
         else
      let (st, flashram, created) = open_save_opt env (flashram_path options) FLASHRAM_SIZE
      in if st \<noteq> 0 then (EXIT_FAILURE, emit Cen64_alloc_cleanup w)
         else
      let flashram = (if flashram_path options \<noteq> None \<and> created
                      then flashram\<lparr>save_ptr := replicate FLASHRAM_SIZE 0xFF\<rparr>
                      else flashram);
          (status, w) =
            (if \<not> cen64_alloc env then
               (EXIT_FAILURE,
                printf ''Failed to allocate enough memory for a device.\<newline>'' [] w)
             else
               (let (status, w) =
                      (case device_create env r eeprom sram flashram ctrl
                              (no_audio options) (no_video options) of
                         None \<Rightarrow>
                           (EXIT_FAILURE, printf ''Failed to create a device.\<newline>'' [] w)
                       | Some device \<Rightarrow>
                           (let device = device\<lparr>device_multithread := multithread options\<rparr>;
                                (status, device, w) = run_device env device (no_video options) w
                            in (status, emit Device_destroy w)))
                in (status, emit Cen64_free w)));
          w = close_if (ddipl_path options) (ddipl r) w;
          w = close_if (ddrom_path options) (ddrom r) w;
          w = close_if (cart_path options) (cart r) w;
          w = (if log_path options \<noteq> None then close_log_file w else w);
          w = emit (Close_rom_file (pifrom r)) w;
          w = emit Cen64_alloc_cleanup w
      in (status, w))"

definition cen64_main :: "env \<Rightarrow> int \<Rightarrow> string list \<Rightarrow> world \<Rightarrow> int \<times> world" where
  "cen64_main env argc argv w =
     (let options = (default_cen64_options env)\<lparr>controller := replicate 4 zero_controller\<rparr>
      in if \<not> cart_db_is_well_formed env then
           (EXIT_FAILURE,
            printf ''Internal cart detection database is not well-formed.\<newline>'' [] w)
         else if cen64_alloc_init env \<noteq> 0 then
           (EXIT_FAILURE, printf ''Failed to initialize the low-level allocators.\<newline>'' [] w)
         else if argc < 3 then
           (EXIT_SUCCESS,
            emit Cen64_alloc_cleanup (emit (Print_command_line_usage (argv_at argv 0)) w))
         else
      let (st, options) = parse_options env options (argc - 1) (drop 1 argv)
      in if st \<noteq> 0 then
           (EXIT_FAILURE,
            emit Cen64_alloc_cleanup (emit (Print_command_line_usage (argv_at argv 0))
              (printf ''Invalid command line argument(s) specified.\<newline>'' [] w)))
         else
      let r = \<lparr>ddipl = zero_rom_file, ddrom = zero_rom_file, pifrom = zero_rom_file,
                cart = zero_rom_file\<rparr>;
          (st, r, w) = load_roms env (ddipl_path options) (ddrom_path options)
                         (pifrom_path options) (cart_path options) r w
      in if st \<noteq> 0 then (EXIT_FAILURE, emit Cen64_alloc_cleanup w)
         else
      let (st, w) = (case log_path options of
                       None \<Rightarrow> (0, w)
                     | Some path \<Rightarrow> open_log_file (fopen env) path w)
      in if st \<noteq> 0 then (EXIT_FAILURE, emit Cen64_alloc_cleanup w)
         else
      let w = (if 0x40 \<le> rom_size (cart r) then
                 (case cart_db_get_entry env (rom_ptr (cart r)) of
                    None \<Rightarrow> w
                  | Some cart_info \<Rightarrow>
                      (let raw = rom_ptr (cart r)
                       in LOG ''ROM,%s,%s,%s,%02X%02X%02X%02X,%02X%02X%02X%02X\<newline>''
                            ([Arg_str (Some (rom_id cart_info)),
                              Arg_str (Some (regions cart_info)),
                              Arg_str (Some (description cart_info))] @
                             map (\<lambda>i. Arg_byte (raw ! i)) [0x10 ..< 0x18])
                            (printf ''Detected cart: %s[%s] - %s\<newline>''
                               [Arg_str (Some (rom_id cart_info)),
                                Arg_str (Some (regions cart_info)),
                                Arg_str (Some (description cart_info))] w)))
               else w)
      in cen64_main_from_paks env options r w)"

text \<open>
  The device has been run to its end: \<open>run_device\<close> has joined the emulation thread.
\<close>

definition device_ran :: "world \<Rightarrow> bool" where
  "device_ran w \<longleftrightarrow> Cen64_thread_join \<in> set (events w)"

section \<open>RSP opcode table (src/rsp/opcodes_priv.h)\<close>

text \<open>
  Modelled from the spec: the macro \<open>RSP_BUILD_OP\<close> and the flags \<open>OPCODE_INFO_*\<close> of
  rsp/opcodes.h. A decoded operation carries its opcode kind, its function kind and the
  info bitset, here the set of the flags that are on; \<open>OPCODE_INFO_NONE\<close> is the empty
  bitset. The kinds are those of the vector loads and stores and of the two invalid
  operations.
\<close>

datatype rsp_opcode_kind =
    Op_INVALID
  | Op_VINVALID
  | Op_LBV
  | Op_LDV
  | Op_LFV
  | Op_LHV
  | Op_LLV
  | Op_LPV
  | Op_LQV
  | Op_LRV
  | Op_LSV
  | Op_LTV
  | Op_LUV
  | Op_SBV
  | Op_SDV
  | Op_SFV
  | Op_SHV
  | Op_SLV
  | Op_SPV
  | Op_SQV
  | Op_SRV
  | Op_SSV
  | Op_STV
  | Op_SUV
  | Op_SWV

datatype rsp_function = Fn_INVALID | Fn_VINVALID | Fn_BDLQSV_SBDLQSV

datatype opcode_info =
  NONE | VECTOR | BRANCH | NEEDRS | NEEDRT | NEEDVS | NEEDVT | LOAD | STORE

record rsp_opcode =
  kind :: rsp_opcode_kind
  function_kind :: rsp_function
  info :: "opcode_info set"

definition OPCODE_INFO :: "opcode_info \<Rightarrow> opcode_info set" where
  "OPCODE_INFO x = (if x = NONE then {} else {x})"

definition RSP_BUILD_OP ::
  "rsp_opcode_kind \<Rightarrow> rsp_function \<Rightarrow> opcode_info set \<Rightarrow> rsp_opcode" where
  "RSP_BUILD_OP op func flags = \<lparr>kind = op, function_kind = func, info = flags\<rparr>"

definition INFO1 :: "opcode_info \<Rightarrow> opcode_info set" where
  "INFO1 x = OPCODE_INFO x"

definition INFO2 :: "opcode_info \<Rightarrow> opcode_info \<Rightarrow> opcode_info set" where
  "INFO2 x y = INFO1 x \<union> OPCODE_INFO y"

definition INFO3 :: "opcode_info \<Rightarrow> opcode_info \<Rightarrow> opcode_info \<Rightarrow> opcode_info set" where
  "INFO3 x y z = INFO2 x y \<union> OPCODE_INFO z"

definition INVALID :: rsp_opcode where
  "INVALID = RSP_BUILD_OP Op_INVALID Fn_INVALID (INFO1 NONE)"

definition VINVALID :: rsp_opcode where
  "VINVALID = RSP_BUILD_OP Op_VINVALID Fn_VINVALID (INFO1 VECTOR)"

definition LBV :: rsp_opcode where
  "LBV = RSP_BUILD_OP Op_LBV Fn_BDLQSV_SBDLQSV (INFO3 NEEDRS NEEDVT LOAD)"

definition LDV :: rsp_opcode where
  "LDV = RSP_BUILD_OP Op_LDV Fn_BDLQSV_SBDLQSV (INFO3 NEEDRS NEEDVT LOAD)"

definition LFV :: rsp_opcode where
  "LFV = RSP_BUILD_OP Op_LFV Fn_INVALID (INFO1 NONE)"

definition LHV :: rsp_opcode where
  "LHV = RSP_BUILD_OP Op_LHV Fn_INVALID (INFO1 NONE)"

definition LLV :: rsp_opcode where
  "LLV = RSP_BUILD_OP Op_LLV Fn_BDLQSV_SBDLQSV (INFO3 NEEDRS NEEDVT LOAD)"

definition LPV :: rsp_opcode where
  "LPV = RSP_BUILD_OP Op_LPV Fn_INVALID (INFO1 NONE)"

definition LQV :: rsp_opcode where
  "LQV = RSP_BUILD_OP Op_LQV Fn_BDLQSV_SBDLQSV (INFO3 NEEDRS NEEDVT LOAD)"

definition LRV :: rsp_opcode where
  "LRV = RSP_BUILD_OP Op_LRV Fn_INVALID (INFO1 NONE)"

definition LSV :: rsp_opcode where
  "LSV = RSP_BUILD_OP Op_LSV Fn_BDLQSV_SBDLQSV (INFO3 NEEDRS NEEDVT LOAD)"

definition LTV :: rsp_opcode where
  "LTV = RSP_BUILD_OP Op_LTV Fn_INVALID (INFO1 NONE)"

definition LUV :: rsp_opcode where
  "LUV = RSP_BUILD_OP Op_LUV Fn_INVALID (INFO1 NONE)"

definition SBV :: rsp_opcode where
  "SBV = RSP_BUILD_OP Op_SBV Fn_BDLQSV_SBDLQSV (INFO3 NEEDRS NEEDVT STORE)"

definition SDV :: rsp_opcode where
  "SDV = RSP_BUILD_OP Op_SDV Fn_BDLQSV_SBDLQSV (INFO3 NEEDRS NEEDVT STORE)"

definition SFV :: rsp_opcode where
  "SFV = RSP_BUILD_OP Op_SFV Fn_INVALID (INFO1 NONE)"

definition SHV :: rsp_opcode where
  "SHV = RSP_BUILD_OP Op_SHV Fn_INVALID (INFO1 NONE)"

definition SLV :: rsp_opcode where
  "SLV = RSP_BUILD_OP Op_SLV Fn_BDLQSV_SBDLQSV (INFO3 NEEDRS NEEDVT STORE)"

definition SPV :: rsp_opcode where
  "SPV = RSP_BUILD_OP Op_SPV Fn_INVALID (INFO1 NONE)"

definition SQV :: rsp_opcode where
  "SQV = RSP_BUILD_OP Op_SQV Fn_BDLQSV_SBDLQSV (INFO3 NEEDRS NEEDVT STORE)"

definition SRV :: rsp_opcode where
  "SRV = RSP_BUILD_OP Op_SRV Fn_INVALID (INFO1 NONE)"

definition SSV :: rsp_opcode where
  "SSV = RSP_BUILD_OP Op_SSV Fn_BDLQSV_SBDLQSV (INFO3 NEEDRS NEEDVT STORE)"

definition STV :: rsp_opcode where
  "STV = RSP_BUILD_OP Op_STV Fn_INVALID (INFO1 NONE)"

definition SUV :: rsp_opcode where
  "SUV = RSP_BUILD_OP Op_SUV Fn_INVALID (INFO1 NONE)"

definition SWV :: rsp_opcode where
  "SWV = RSP_BUILD_OP Op_SWV Fn_INVALID (INFO1 NONE)"

section \<open>A concrete host\<close>

text \<open>
  A host on which every step succeeds, for evaluating the entry point: the cart database
  is well-formed, the allocators initialise, the two positional arguments are the PIF ROM
  and the cart, every file opens except \<open>missing.z64\<close>, the digest of every image is
  twenty zero bytes while the known sums are twenty bytes of 1, 2, 3 and 4, and the
  device and its thread are created.
\<close>

definition host_options :: cen64_options where
  "host_options = \<lparr>ddipl_path = None, ddrom_path = None, pifrom_path = None,
     cart_path = None, log_path = None, eeprom_path = None, eeprom_size = 0,
     sram_path = None, flashram_path = None, no_audio = False, no_video = False,
     multithread = False, controller = []\<rparr>"

definition host_rom :: rom_file where
  "host_rom = \<lparr>rom_ptr = replicate 64 0, rom_size = 64\<rparr>"

definition host :: env where
  "host = \<lparr>cart_db_is_well_formed = True,
     cen64_alloc_init = 0,
     default_cen64_options = host_options,
     parse_options = (\<lambda>options argc argv.
        (0, options\<lparr>pifrom_path := argv_at argv 0, cart_path := argv_at argv 1\<rparr>)),
     open_rom_file = (\<lambda>path. if path = Some ''missing.z64'' \<or> path = None
        then (1, zero_rom_file) else (0, host_rom)),
     sha1 = (\<lambda>bytes. replicate 20 0),
     sha1_dd_ipl = replicate 20 1,
     sha1_pifrom_ntsc = replicate 20 2,
     sha1_pifrom_ntsc_j = replicate 20 3,
     sha1_pifrom_pal = replicate 20 4,
     fopen = (\<lambda>path. Some (FILE 3)),
     cart_db_get_entry = (\<lambda>bytes. None),
     open_save_file = (\<lambda>path sz. (0, \<lparr>save_ptr = replicate sz 0, save_size = sz\<rparr>, False)),
     open_gb_save = (\<lambda>path. (0, zero_save_file)),
     controller_pak_format = (\<lambda>bytes. bytes),
     gb_init = (\<lambda>c. c),
     cen64_alloc = True,
     device_create = (\<lambda>r eeprom sram flashram ctrl no_audio' no_video'.
        Some \<lparr>running = False, device_multithread = False\<rparr>),
     cen64_thread_create = 0\<rparr>"

definition zero_roms :: roms where
  "zero_roms = \<lparr>ddipl = zero_rom_file, ddrom = zero_rom_file, pifrom = zero_rom_file,
     cart = zero_rom_file\<rparr>"

section \<open>Properties of the data cache\<close>

lemma mask20_numeral: "(1048575 :: 32 word) = mask 20"
  by (simp add: mask_eq_exp_minus_1)

lemma get_line_less: "get_line dcache vaddr < 512"
  unfolding get_line_def
  by (rule order_le_less_trans[OF word_and_le1[THEN word_le_nat_alt[THEN iffD1]]]) simp

lemma get_line_const_eq: "get_line_const dcache vaddr = get_line dcache vaddr"
  by (simp add: get_line_const_def get_line_def)

lemma get_line_store [simp]: "get_line (store dcache p line) vaddr = get_line dcache vaddr"
  by (simp add: get_line_def)

lemma deref_store_same:
  "dcache_wf dcache \<Longrightarrow> p < 512 \<Longrightarrow> deref (store dcache p line) p = line"
  by (simp add: dcache_wf_def deref_def store_def)

lemma deref_store_other:
  "q \<noteq> p \<Longrightarrow> deref (store dcache p line) q = deref dcache q"
  by (simp add: deref_def store_def)

lemma dcache_wf_store: "dcache_wf (store dcache p line) = dcache_wf dcache"
  by (simp add: dcache_wf_def store_def)

lemma is_valid_iff: "is_valid line \<longleftrightarrow> bit (metadata line) 0"
proof
  assume "is_valid line"
  then have "bit (metadata line AND 1) 0 = bit (1 :: 32 word) 0"
    by (simp add: is_valid_def)
  then show "bit (metadata line) 0"
    by (simp add: bit_simps)
next
  assume "bit (metadata line) 0"
  then have "metadata line AND 1 = 1"
    by (intro bit_word_eqI) (auto simp: bit_simps)
  then show "is_valid line"
    by (simp add: is_valid_def)
qed

lemma is_dirty_iff: "is_dirty line \<longleftrightarrow> bit (metadata line) 1"
proof
  assume "is_dirty line"
  then have "bit (metadata line AND 2) 1 = bit (2 :: 32 word) 1"
    by (simp add: is_dirty_def)
  then show "bit (metadata line) 1"
    by (simp add: bit_simps)
next
  assume "bit (metadata line) 1"
  then have "metadata line AND 2 = 2"
    by (intro bit_word_eqI) (auto simp: bit_simps)
  then show "is_dirty line"
    by (simp add: is_dirty_def)
qed

lemma is_valid_invalidate_line: "\<not> is_valid (invalidate_line line)"
  by (simp add: is_valid_iff invalidate_line_def bit_simps)

lemma get_tag_filled_line:
  "get_tag (set_clean (validate_line line t)) = take_bit 20 t"
proof (rule bit_word_eqI)
  fix n assume "n < LENGTH(32)"
  then show "bit (get_tag (set_clean (validate_line line t))) n = bit (take_bit 20 t) n"
    unfolding bit_take_bit_iff get_tag_def set_clean_def validate_line_def
    by (auto simp: bit_simps mask20_numeral)
qed

lemma is_valid_filled_line: "is_valid (set_clean (validate_line line t))"
  by (simp add: is_valid_iff set_clean_def validate_line_def bit_simps)

lemma is_dirty_filled_line: "\<not> is_dirty (set_clean (validate_line line t))"
  by (simp add: is_dirty_iff set_clean_def validate_line_def bit_simps)

lemma get_tag_set_tag: "get_tag (set_tag line t) = take_bit 20 t"
proof (rule bit_word_eqI)
  fix n assume "n < LENGTH(32)"
  then show "bit (get_tag (set_tag line t)) n = bit (take_bit 20 t) n"
    unfolding bit_take_bit_iff get_tag_def set_tag_def
    by (auto simp: bit_simps mask20_numeral)
qed

lemma is_valid_set_tag: "is_valid (set_tag line t) = is_valid line"
  by (simp add: is_valid_iff set_tag_def bit_simps)

lemma is_dirty_set_tag: "\<not> is_dirty (set_tag line t)"
  by (simp add: is_dirty_iff set_tag_def bit_simps)

lemma take_bit_tag_small:
  fixes paddr :: "32 word"
  assumes "paddr < 2 ^ 24"
  shows "take_bit 20 (drop_bit 4 paddr) = drop_bit 4 paddr"
proof -
  from assms have "unat paddr < 2 ^ 24"
    by (simp add: word_less_nat_alt)
  then have "unat paddr div 2 ^ 4 < 2 ^ 20"
    by simp
  then have "take_bit 20 (drop_bit 4 (unat paddr)) = drop_bit 4 (unat paddr)"
    by (simp add: take_bit_nat_eq_self drop_bit_eq_div)
  then show ?thesis
    by (simp add: word_unat_eq_iff unsigned_take_bit_eq unat_drop_bit_eq)
qed

lemma deref_fill:
  assumes "dcache_wf dcache"
  shows "deref (vr4300_dcache_fill dcache vaddr paddr bytes) (get_line dcache vaddr) =
    set_clean (validate_line (deref dcache (get_line dcache vaddr)\<lparr>data := take 16 bytes\<rparr>)
      (drop_bit 4 paddr))"
  using assms get_line_less [of dcache vaddr]
  by (simp add: vr4300_dcache_fill_def Let_def deref_store_same)

lemma get_line_fill [simp]:
  "get_line (vr4300_dcache_fill dcache vaddr paddr bytes) v = get_line dcache v"
  by (simp add: get_line_def)

text \<open>
  Below 16 MiB (\<open>paddr < 2 ^ 24\<close>) the tag fits its 20 bits, and a fill is followed by
  a hit on the filled line, which is valid and clean and holds the bytes and the tag.
\<close>

lemma dcache_fill_probe_below_16MiB:
  assumes "dcache_wf dcache" and "length bytes = 16" and "paddr < 2 ^ 24"
  shows "vr4300_dcache_probe (vr4300_dcache_fill dcache vaddr paddr bytes) vaddr paddr =
           Some (unat (drop_bit 4 vaddr AND 0x1FF))"
    and "data (deref (vr4300_dcache_fill dcache vaddr paddr bytes)
           (unat (drop_bit 4 vaddr AND 0x1FF))) = bytes"
    and "vr4300_dcache_get_tag (deref (vr4300_dcache_fill dcache vaddr paddr bytes)
           (unat (drop_bit 4 vaddr AND 0x1FF))) = drop_bit 4 paddr"
    and "is_valid (deref (vr4300_dcache_fill dcache vaddr paddr bytes)
           (unat (drop_bit 4 vaddr AND 0x1FF)))"
    and "\<not> is_dirty (deref (vr4300_dcache_fill dcache vaddr paddr bytes)
           (unat (drop_bit 4 vaddr AND 0x1FF)))"
proof -
  let ?p = "unat (drop_bit 4 vaddr AND 0x1FF)"
  have p: "get_line dcache vaddr = ?p"
    by (simp add: get_line_def)
  note line = deref_fill [OF assms(1), of vaddr paddr bytes, unfolded p]
  show "data (deref (vr4300_dcache_fill dcache vaddr paddr bytes) ?p) = bytes"
    using assms(2) by (simp add: line set_clean_def validate_line_def)
  show tag: "vr4300_dcache_get_tag (deref (vr4300_dcache_fill dcache vaddr paddr bytes) ?p)
      = drop_bit 4 paddr"
    by (simp only: line vr4300_dcache_get_tag_def get_tag_filled_line
        take_bit_tag_small [OF assms(3)])
  show valid: "is_valid (deref (vr4300_dcache_fill dcache vaddr paddr bytes) ?p)"
    by (simp only: line is_valid_filled_line)
  show "\<not> is_dirty (deref (vr4300_dcache_fill dcache vaddr paddr bytes) ?p)"
    by (simp only: line is_dirty_filled_line not_False_eq_True)
  show "vr4300_dcache_probe (vr4300_dcache_fill dcache vaddr paddr bytes) vaddr paddr = Some ?p"
    using tag valid
    by (simp add: vr4300_dcache_probe_def Let_def get_line_const_eq p vr4300_dcache_get_tag_def)
qed

text \<open>
  Claim C1 says that after \<open>vr4300_dcache_fill(dcache, vaddr, paddr, bytes)\<close> the probe
  \<open>vr4300_dcache_probe(dcache, vaddr, paddr)\<close> returns the filled line, for every
  \<open>paddr\<close>. \<open>validate_line\<close> keeps only the low 20 bits of \<open>paddr >> 4\<close> while
  the probe compares the stored tag with all 28 bits: for the first line of the cart ROM
  (\<open>paddr = 0x10000000\<close>, read through \<open>vaddr = 0xFFFFFFFF90000000\<close>) the probe that
  follows the fill returns \<open>NULL\<close>.
\<close>

theorem dcache_fill_probe_miss_cart_rom:
  "vr4300_dcache_probe
     (vr4300_dcache_fill \<lparr>lines = replicate 512 \<lparr>data = replicate 16 0, metadata = 0\<rparr>\<rparr>
        0xFFFFFFFF90000000 0x10000000 (replicate 16 0xAB))
     0xFFFFFFFF90000000 0x10000000 = None"
  by (simp add: vr4300_dcache_probe_def vr4300_dcache_fill_def get_line_def get_line_const_def
      deref_def store_def get_tag_def validate_line_def set_clean_def is_valid_def Let_def)

text \<open>
  The same miss follows a fill at every physical address from 16 MiB on.
\<close>

lemma take_bit_tag_large:
  fixes paddr :: "32 word"
  assumes "2 ^ 24 \<le> paddr"
  shows "take_bit 20 (drop_bit 4 paddr) \<noteq> drop_bit 4 paddr"
proof
  assume eq: "take_bit 20 (drop_bit 4 paddr) = drop_bit 4 paddr"
  from assms have "2 ^ 24 \<le> unat paddr"
    by (simp add: word_le_nat_alt)
  then have "2 ^ 20 \<le> unat paddr div 2 ^ 4"
    by simp
  moreover have "unat (drop_bit 4 paddr) = unat paddr div 2 ^ 4"
    by (simp add: unat_drop_bit_eq drop_bit_eq_div unat_div)
  ultimately have large: "2 ^ 20 \<le> unat (drop_bit 4 paddr)"
    by (simp only:)
  have "unat (take_bit 20 (drop_bit 4 paddr)) < 2 ^ 20"
    using take_bit_nat_less_exp [of 20 "unat (drop_bit 4 paddr)"]
    by (simp only: unsigned_take_bit_eq)
  with eq large show False
    by simp
qed

lemma dcache_fill_probe_miss_above_16MiB:
  assumes "dcache_wf dcache" and "2 ^ 24 \<le> paddr"
  shows "vr4300_dcache_probe (vr4300_dcache_fill dcache vaddr paddr bytes) vaddr paddr = None"
  using take_bit_tag_large [OF assms(2)]
  by (simp add: vr4300_dcache_probe_def Let_def get_line_const_eq deref_fill [OF assms(1)]
      get_tag_filled_line)

text \<open>
  Claim C2 says that \<open>vr4300_dcache_wb_invalidate\<close> writes the 16 bytes of a valid and
  dirty line back to memory before it clears the valid bit. On a line that is valid and
  dirty the function clears the valid bit and writes nothing.
\<close>

theorem dcache_wb_invalidate_no_writeback:
  "let dcache = \<lparr>lines = replicate 512 \<lparr>data = replicate 16 0xAB, metadata = 3\<rparr>\<rparr>;
       line = deref dcache (get_line dcache 0);
       (dcache', writes) = vr4300_dcache_wb_invalidate dcache 0
   in is_valid line \<and> is_dirty line \<and>
      \<not> is_valid (deref dcache' (get_line dcache' 0)) \<and> writes = []"
  by (simp add: vr4300_dcache_wb_invalidate_def get_line_def deref_def store_def
      is_valid_def is_dirty_def invalidate_line_def Let_def)

lemma dcache_wb_invalidate_writes: "snd (vr4300_dcache_wb_invalidate dcache vaddr) = []"
  by (simp add: vr4300_dcache_wb_invalidate_def Let_def)

text \<open>
  Claim C3: after \<open>vr4300_dcache_wb_invalidate(dcache, vaddr)\<close>, the probe
  \<open>vr4300_dcache_probe(dcache, vaddr, paddr)\<close> returns \<open>NULL\<close>, for every cache state,
  virtual address and physical address.
\<close>

theorem dcache_wb_invalidate_probe_miss:
  assumes "dcache_wf dcache"
  shows "vr4300_dcache_probe (fst (vr4300_dcache_wb_invalidate dcache vaddr)) vaddr paddr = None"
proof (cases "is_valid (deref dcache (get_line dcache vaddr))")
  case True
  then show ?thesis
    using assms get_line_less [of dcache vaddr]
    by (simp add: vr4300_dcache_wb_invalidate_def vr4300_dcache_probe_def Let_def
        get_line_const_eq deref_store_same is_valid_invalidate_line)
next
  case False
  then show ?thesis
    by (simp add: vr4300_dcache_wb_invalidate_def vr4300_dcache_probe_def Let_def
        get_line_const_eq)
qed

theorem dcache_wb_invalidate_probe_miss_witness:
  "let dcache = \<lparr>lines = replicate 512 \<lparr>data = replicate 16 0xAB, metadata = 0x5003\<rparr>\<rparr>
   in dcache_wf dcache \<and> vr4300_dcache_probe dcache 0x20 0x50 = Some 2 \<and>
      vr4300_dcache_probe (fst (vr4300_dcache_wb_invalidate dcache 0x20)) 0x20 0x50 = None"
proof -
  let ?dcache = "\<lparr>lines = replicate 512 \<lparr>data = replicate 16 (0xAB :: uint8_t), metadata = 0x5003\<rparr>\<rparr>"
  have wf: "dcache_wf ?dcache"
    by (simp add: dcache_wf_def)
  have "vr4300_dcache_probe ?dcache 0x20 0x50 = Some 2"
    by (simp add: vr4300_dcache_probe_def get_line_const_def deref_def get_tag_def
        is_valid_def Let_def)
  with wf dcache_wb_invalidate_probe_miss [OF wf, of "0x20" "0x50"] show ?thesis
    by (simp add: Let_def)
qed

text \<open>
  Claim C8: for every line state and every tag, \<open>vr4300_dcache_set_tag\<close> sets the
  metadata of the line to \<open>(tag << 12) | (old valid bit)\<close>: the tag is installed, the
  valid bit is kept, the dirty bit is cleared, and the data bytes are unchanged.
\<close>

theorem dcache_set_tag_clears_dirty:
  assumes "dcache_wf dcache"
  shows "let p = get_line dcache vaddr;
             old = deref dcache p;
             new = deref (vr4300_dcache_set_tag dcache vaddr tag) p
         in metadata new = push_bit 12 tag OR (metadata old AND 0x1) \<and>
            vr4300_dcache_get_tag new = take_bit 20 tag \<and>
            is_valid new = is_valid old \<and>
            \<not> is_dirty new \<and>
            data new = data old"
proof -
  let ?p = "get_line dcache vaddr"
  have new: "deref (vr4300_dcache_set_tag dcache vaddr tag) ?p = set_tag (deref dcache ?p) tag"
    using assms get_line_less [of dcache vaddr]
    by (simp add: vr4300_dcache_set_tag_def Let_def deref_store_same)
  have "metadata (set_tag (deref dcache ?p) tag) =
      push_bit 12 tag OR (metadata (deref dcache ?p) AND 0x1)"
    and "data (set_tag (deref dcache ?p) tag) = data (deref dcache ?p)"
    by (simp_all add: set_tag_def)
  then show ?thesis
    unfolding Let_def new vr4300_dcache_get_tag_def
    using get_tag_set_tag is_valid_set_tag is_dirty_set_tag by blast
qed

theorem dcache_set_tag_clears_dirty_witness:
  "let dcache = \<lparr>lines = replicate 512 \<lparr>data = replicate 16 0xAB, metadata = 0x5003\<rparr>\<rparr>;
       old = deref dcache 2;
       new = deref (vr4300_dcache_set_tag dcache 0x20 0x9) 2
   in dcache_wf dcache \<and> is_valid old \<and> is_dirty old \<and>
      metadata new = 0x9001 \<and> vr4300_dcache_get_tag new = 0x9 \<and>
      is_valid new \<and> \<not> is_dirty new \<and> data new = data old"
proof -
  let ?dcache = "\<lparr>lines = replicate 512 \<lparr>data = replicate 16 (0xAB :: uint8_t), metadata = 0x5003\<rparr>\<rparr>"
  have wf: "dcache_wf ?dcache"
    by (simp add: dcache_wf_def)
  have p: "get_line ?dcache 0x20 = 2"
    by (simp add: get_line_def)
  have old: "deref ?dcache 2 = \<lparr>data = replicate 16 0xAB, metadata = 0x5003\<rparr>"
    by (simp add: deref_def)
  show ?thesis
    using wf dcache_set_tag_clears_dirty [OF wf, of "0x20" "0x9"]
    by (simp add: Let_def p old is_valid_def is_dirty_def)
qed

section \<open>Properties of the log file\<close>

lemma events_emit [simp]: "events (emit e w) = events w @ [e]"
  by (simp add: emit_def)

lemma log_fp_emit [simp]: "log_fp (emit e w) = log_fp w"
  by (simp add: emit_def)

lemma events_printf [simp]: "events (printf fmt args w) = events w @ [Printf fmt args]"
  by (simp add: printf_def)

lemma log_fp_printf [simp]: "log_fp (printf fmt args w) = log_fp w"
  by (simp add: printf_def)

text \<open>
  Claim C4 says that \<open>close_log_file\<close> closes the log file only when \<open>log_fp\<close> is
  not null and makes no close call when it is null. The test of the source is inverted:
  after a successful \<open>open_log_file\<close> the handle is left open, and with a null handle
  \<open>fclose(NULL)\<close> is called.
\<close>

theorem close_log_file_inverted_null_check:
  "(let (st, w) = open_log_file (\<lambda>path. Some (FILE 3)) ''cen64.log'' initial_world
    in st = 0 \<and> log_fp w = Some (FILE 3) \<and> close_log_file w = w) \<and>
   close_log_file initial_world = \<lparr>log_fp = None, events = [Fclose None]\<rparr>"
  by (simp add: open_log_file_def close_log_file_def initial_world_def emit_def)

lemma log_fp_failed_opens:
  "\<forall>p\<in>set paths. fopen_w p = None \<Longrightarrow> log_fp w = None \<Longrightarrow>
     log_fp (foldl (\<lambda>w p. snd (open_log_file fopen_w p w)) w paths) = None"
  by (induction paths arbitrary: w) (simp_all add: open_log_file_def)

text \<open>
  Claim C9: when \<open>fopen\<close> returns null, \<open>open_log_file\<close> returns 1 and \<open>log_fp\<close>
  is null; \<open>LOG\<close> writes only when \<open>log_fp\<close> is not null, so for every argument list
  it does nothing while no log file has been opened successfully (from the start of the
  process, after any number of failed \<open>open_log_file\<close> calls).
\<close>

theorem open_log_file_failure_LOG_noop:
  "(fopen_w path = None \<longrightarrow> open_log_file fopen_w path w = (1, w\<lparr>log_fp := None\<rparr>)) \<and>
   (log_fp w = None \<longrightarrow> LOG fmt args w = w) \<and>
   (events (LOG fmt args w) \<noteq> events w \<longrightarrow> log_fp w \<noteq> None) \<and>
   ((\<forall>p\<in>set paths. fopen_w p = None) \<longrightarrow>
      (let w' = foldl (\<lambda>w p. snd (open_log_file fopen_w p w)) initial_world paths
       in LOG fmt args w' = w'))"
proof -
  have "log_fp (foldl (\<lambda>w p. snd (open_log_file fopen_w p w)) initial_world paths) = None"
    if "\<forall>p\<in>set paths. fopen_w p = None"
    using that by (rule log_fp_failed_opens) (simp add: initial_world_def)
  then show ?thesis
    by (auto simp: open_log_file_def LOG_def Let_def split: option.splits)
qed

theorem open_log_file_failure_LOG_noop_witness:
  "open_log_file (\<lambda>p. None) ''cen64.log'' initial_world = (1, initial_world) \<and>
   LOG ''ROM,%s'' [Arg_str (Some ''NSME'')] initial_world = initial_world \<and>
   events (LOG ''ROM,%s'' [Arg_str (Some ''NSME'')] \<lparr>log_fp = Some (FILE 3), events = []\<rparr>) =
     [Fprintf (FILE 3) ''ROM,%s'' [Arg_str (Some ''NSME'')]] \<and>
   LOG ''ROM,%s'' [Arg_str (Some ''NSME'')]
     (foldl (\<lambda>w p. snd (open_log_file (\<lambda>p. None) p w)) initial_world [''a.log'', ''b.log'']) =
     initial_world"
proof -
  have a: "(\<lambda>p :: string. None :: FILE option) ''cen64.log'' = None"
    by simp
  have b: "log_fp initial_world = None"
    by (simp add: initial_world_def)
  have c: "\<forall>p\<in>set [''a.log'', ''b.log'']. (\<lambda>p :: string. None :: FILE option) p = None"
    by simp
  have d: "foldl (\<lambda>w p. snd (open_log_file (\<lambda>p. None) p w)) initial_world [''a.log'', ''b.log'']
      = initial_world"
    by (simp add: open_log_file_def initial_world_def)
  note t = open_log_file_failure_LOG_noop [of "\<lambda>p. None" "''cen64.log''" initial_world
      "''ROM,%s''" "[Arg_str (Some ''NSME'')]" "[''a.log'', ''b.log'']"]
  have "events (LOG ''ROM,%s'' [Arg_str (Some ''NSME'')] \<lparr>log_fp = Some (FILE 3), events = []\<rparr>) =
     [Fprintf (FILE 3) ''ROM,%s'' [Arg_str (Some ''NSME'')]]"
    by (simp add: LOG_def)
  with t a b c d show ?thesis
    by (simp add: initial_world_def Let_def)
qed

section \<open>Properties of the RSP opcode table\<close>

lemmas rsp_entry_defs =
  RSP_BUILD_OP_def INFO1_def INFO2_def INFO3_def OPCODE_INFO_def INVALID_def
  LBV_def LDV_def LFV_def LHV_def LLV_def LPV_def LQV_def LRV_def LSV_def LTV_def LUV_def
  SBV_def SDV_def SFV_def SHV_def SLV_def SPV_def SQV_def SRV_def SSV_def STV_def SUV_def
  SWV_def

text \<open>
  Claim C7 says that every vector load entry carries \<open>LOAD\<close>, \<open>NEEDRS\<close> and
  \<open>NEEDVT\<close>, every vector store entry carries \<open>STORE\<close>, and none is bound to the
  invalid operation. The entry of \<open>LFV\<close> carries no flag and the function kind of
  \<open>INVALID\<close>, and so does the entry of \<open>SWV\<close>.
\<close>

theorem rsp_LFV_SWV_carry_no_flag:
  "LOAD \<notin> info LFV \<and> NEEDRS \<notin> info LFV \<and> NEEDVT \<notin> info LFV \<and>
   function_kind LFV = function_kind INVALID \<and>
   STORE \<notin> info SWV \<and> function_kind SWV = function_kind INVALID"
  by (simp add: rsp_entry_defs)

text \<open>
  Claim C7 as amended: the entries of \<open>LBV\<close>, \<open>LSV\<close>, \<open>LLV\<close>, \<open>LDV\<close> and
  \<open>LQV\<close> carry exactly \<open>NEEDRS\<close>, \<open>NEEDVT\<close> and \<open>LOAD\<close>, those of \<open>SBV\<close>,
  \<open>SSV\<close>, \<open>SLV\<close>, \<open>SDV\<close> and \<open>SQV\<close> exactly \<open>NEEDRS\<close>, \<open>NEEDVT\<close> and
  \<open>STORE\<close>, all ten with the function kind \<open>BDLQSV_SBDLQSV\<close>; the entries of
  \<open>LRV\<close>, \<open>LPV\<close>, \<open>LUV\<close>, \<open>LHV\<close>, \<open>LFV\<close>, \<open>LTV\<close>, \<open>SRV\<close>, \<open>SPV\<close>,
  \<open>SUV\<close>, \<open>SHV\<close>, \<open>SFV\<close>, \<open>STV\<close> and \<open>SWV\<close> carry no flag and the function
  kind \<open>INVALID\<close>; every entry keeps its own opcode kind.
\<close>

theorem rsp_vector_load_store_entries:
  "list_all (\<lambda>e. info e = {NEEDRS, NEEDVT, LOAD} \<and> function_kind e = Fn_BDLQSV_SBDLQSV)
     [LBV, LSV, LLV, LDV, LQV] \<and>
   list_all (\<lambda>e. info e = {NEEDRS, NEEDVT, STORE} \<and> function_kind e = Fn_BDLQSV_SBDLQSV)
     [SBV, SSV, SLV, SDV, SQV] \<and>
   list_all (\<lambda>e. info e = {} \<and> function_kind e = Fn_INVALID)
     [LRV, LPV, LUV, LHV, LFV, LTV, SRV, SPV, SUV, SHV, SFV, STV, SWV] \<and>
   map kind [LBV, LSV, LLV, LDV, LQV, LRV, LPV, LUV, LHV, LFV, LTV] =
     [Op_LBV, Op_LSV, Op_LLV, Op_LDV, Op_LQV, Op_LRV, Op_LPV, Op_LUV, Op_LHV, Op_LFV, Op_LTV] \<and>
   map kind [SBV, SSV, SLV, SDV, SQV, SRV, SPV, SUV, SHV, SFV, STV, SWV] =
     [Op_SBV, Op_SSV, Op_SLV, Op_SDV, Op_SQV, Op_SRV, Op_SPV, Op_SUV, Op_SHV, Op_SFV, Op_STV,
      Op_SWV]"
  by (simp add: rsp_entry_defs insert_commute)

section \<open>Properties of the entry point\<close>

text \<open>
  Claim C5 says that \<open>load_roms\<close> returns 0 in every run in which the DD IPL and the
  PIF ROM open and a SHA-1 validation fails. In the run below both open, all four
  validations fail, and the cart does not open: \<open>load_roms\<close> returns 4.
\<close>

theorem load_roms_cart_failure_after_sha_mismatch:
  "(let (st, r, w) = load_roms host (Some ''ddipl.bin'') None (Some ''pifrom.bin'')
                       (Some ''missing.z64'') zero_roms initial_world
    in fst (open_rom_file host (Some ''ddipl.bin'')) = 0 \<and>
       fst (open_rom_file host (Some ''pifrom.bin'')) = 0 \<and>
       validate_sha host (ddipl r) (sha1_dd_ipl host) = 0 \<and>
       validate_sha host (pifrom r) (sha1_pifrom_ntsc host) = 0 \<and>
       validate_sha host (pifrom r) (sha1_pifrom_ntsc_j host) = 0 \<and>
       validate_sha host (pifrom r) (sha1_pifrom_pal host) = 0 \<and>
       st = 4)"
  by (simp add: load_roms_def host_def host_rom_def zero_roms_def initial_world_def
      validate_sha_def SHA1_SIZE_def close_if_def Let_def)

text \<open>
  Claim C5 as amended: when every ROM file that is given opens (the DD IPL, the DD ROM,
  the PIF ROM and the cart), \<open>load_roms\<close> returns 0 whatever the SHA-1 validations
  say, having printed \<open>Invalid SHA1 on DD IPL.\<close> when the DD IPL is given and fails its
  validation, and \<open>Unknown or corrupted PIFROM\<close> when the PIF ROM matches none of the
  three known sums.
\<close>

theorem load_roms_sha_mismatch_is_warning:
  assumes "ddipl_path' \<noteq> None \<longrightarrow> fst (open_rom_file env ddipl_path') = 0"
    and "ddrom_path' \<noteq> None \<longrightarrow> fst (open_rom_file env ddrom_path') = 0"
    and "fst (open_rom_file env pifrom_path') = 0"
    and "cart_path' \<noteq> None \<longrightarrow> fst (open_rom_file env cart_path') = 0"
  shows "case load_roms env ddipl_path' ddrom_path' pifrom_path' cart_path' r w of
           (st, r', w') \<Rightarrow>
             st = 0 \<and>
             (ddipl_path' \<noteq> None \<and> validate_sha env (ddipl r') (sha1_dd_ipl env) = 0 \<longrightarrow>
                Printf ''Invalid SHA1 on DD IPL.\<newline>'' [] \<in> set (events w')) \<and>
             (validate_sha env (pifrom r') (sha1_pifrom_ntsc env) = 0 \<and>
              validate_sha env (pifrom r') (sha1_pifrom_ntsc_j env) = 0 \<and>
              validate_sha env (pifrom r') (sha1_pifrom_pal env) = 0 \<longrightarrow>
                Printf ''Unknown or corrupted PIFROM: %s.\<newline>'' [Arg_str pifrom_path']
                  \<in> set (events w'))"
  using assms
  by (simp add: load_roms_def Let_def split_beta)

theorem load_roms_sha_mismatch_is_warning_witness:
  "(let (st, r, w) = load_roms host (Some ''ddipl.bin'') None (Some ''pifrom.bin'')
                       (Some ''cart.z64'') zero_roms initial_world
    in validate_sha host (ddipl r) (sha1_dd_ipl host) = 0 \<and>
       validate_sha host (pifrom r) (sha1_pifrom_ntsc host) = 0 \<and>
       validate_sha host (pifrom r) (sha1_pifrom_ntsc_j host) = 0 \<and>
       validate_sha host (pifrom r) (sha1_pifrom_pal host) = 0 \<and>
       st = 0 \<and>
       events w = [Printf ''Invalid SHA1 on DD IPL.\<newline>'' [],
                   Printf ''Unknown or corrupted PIFROM: %s.\<newline>''
                     [Arg_str (Some ''pifrom.bin'')]])"
proof -
  have o: "fst (open_rom_file host (Some ''ddipl.bin'')) = 0"
    "fst (open_rom_file host (Some ''pifrom.bin'')) = 0"
    "fst (open_rom_file host (Some ''cart.z64'')) = 0"
    by (simp_all add: host_def)
  have ev: "events (snd (snd (load_roms host (Some ''ddipl.bin'') None (Some ''pifrom.bin'')
      (Some ''cart.z64'') zero_roms initial_world))) =
      [Printf ''Invalid SHA1 on DD IPL.\<newline>'' [],
       Printf ''Unknown or corrupted PIFROM: %s.\<newline>'' [Arg_str (Some ''pifrom.bin'')]]"
    and r: "fst (snd (load_roms host (Some ''ddipl.bin'') None (Some ''pifrom.bin'')
      (Some ''cart.z64'') zero_roms initial_world)) =
      \<lparr>ddipl = host_rom, ddrom = zero_rom_file, pifrom = host_rom, cart = host_rom\<rparr>"
    by (simp_all add: load_roms_def host_def host_rom_def zero_roms_def initial_world_def
      validate_sha_def SHA1_SIZE_def close_if_def Let_def)
  have v: "validate_sha host host_rom (sha1_dd_ipl host) = 0"
    "validate_sha host host_rom (sha1_pifrom_ntsc host) = 0"
    "validate_sha host host_rom (sha1_pifrom_ntsc_j host) = 0"
    "validate_sha host host_rom (sha1_pifrom_pal host) = 0"
    by (simp_all add: validate_sha_def host_def host_rom_def SHA1_SIZE_def Let_def)
  show ?thesis
    using load_roms_sha_mismatch_is_warning [of "Some ''ddipl.bin''" host None
        "Some ''pifrom.bin''" "Some ''cart.z64''" zero_roms initial_world] o ev r v
    by (simp add: split_beta Let_def)
qed

text \<open>
  Claim C10 says that \<open>cen64_main\<close> called with \<open>argc < 3\<close> prints the usage, cleans
  up the allocators and returns \<open>EXIT_SUCCESS\<close>. With \<open>argc = 1\<close> on a host whose
  allocators fail to initialise it prints the allocator message and returns
  \<open>EXIT_FAILURE\<close>.
\<close>

theorem cen64_main_usage_after_failed_init:
  "cen64_main (host\<lparr>cen64_alloc_init := 1\<rparr>) 1 [''cen64''] initial_world =
     (EXIT_FAILURE,
      \<lparr>log_fp = None,
       events = [Printf ''Failed to initialize the low-level allocators.\<newline>'' []]\<rparr>)"
  by (simp add: cen64_main_def host_def initial_world_def printf_def emit_def)

text \<open>
  Claim C10 as amended: when the cart database is well-formed and the allocators have
  initialised, \<open>cen64_main\<close> called with \<open>argc < 3\<close> prints the usage, cleans up the
  allocators and returns \<open>EXIT_SUCCESS\<close>, and does nothing else.
\<close>

theorem cen64_main_usage_exit_success:
  assumes "cart_db_is_well_formed env" and "cen64_alloc_init env = 0" and "argc < 3"
  shows "cen64_main env argc argv w =
           (EXIT_SUCCESS,
            w\<lparr>events := events w @ [Print_command_line_usage (argv_at argv 0),
                                     Cen64_alloc_cleanup]\<rparr>)"
  unfolding cen64_main_def using assms by (simp add: emit_def)

theorem cen64_main_usage_exit_success_witness:
  "cart_db_is_well_formed host \<and> cen64_alloc_init host = 0 \<and> (2 :: int) < 3 \<and>
   cen64_main host 2 [''cen64'', ''pifrom.bin''] initial_world =
     (0, \<lparr>log_fp = None,
          events = [Print_command_line_usage (Some ''cen64''), Cen64_alloc_cleanup]\<rparr>)"
proof -
  have h: "cart_db_is_well_formed host" "cen64_alloc_init host = 0"
    by (simp_all add: host_def)
  show ?thesis
    using h cen64_main_usage_exit_success [OF h, of 2 "[''cen64'', ''pifrom.bin'']" initial_world]
    by (simp add: EXIT_SUCCESS_def initial_world_def argv_at_def)
qed

lemma device_ran_emit:
  "device_ran (emit e w) \<longleftrightarrow> e = Cen64_thread_join \<or> device_ran w"
  by (auto simp: device_ran_def)

lemma device_ran_printf: "device_ran (printf fmt args w) = device_ran w"
  by (simp add: device_ran_def)

lemma device_ran_close_if: "device_ran (close_if path file w) = device_ran w"
  by (simp add: close_if_def device_ran_emit)

lemma device_ran_close_log_file: "device_ran (close_log_file w) = device_ran w"
  by (simp add: close_log_file_def device_ran_emit)

lemma device_ran_LOG: "device_ran (LOG fmt args w) = device_ran w"
  by (simp add: LOG_def device_ran_emit split: option.splits)

lemma device_ran_open_log_file:
  "device_ran (snd (open_log_file fopen_w path w)) = device_ran w"
  by (simp add: open_log_file_def Let_def device_ran_def)

lemmas device_ran_simps =
  device_ran_emit device_ran_printf device_ran_close_if device_ran_close_log_file
  device_ran_LOG device_ran_open_log_file

lemma device_ran_load_roms:
  "device_ran (snd (snd (load_roms env p1 p2 p3 p4 r w))) = device_ran w"
  by (simp add: load_roms_def Let_def split_beta device_ran_simps)

lemma device_ran_load_pak:
  "(case load_pak env c w of
      Inl (st, c', w') \<Rightarrow> st \<noteq> 0 \<and> device_ran w' = device_ran w
    | Inr (c', w') \<Rightarrow> device_ran w' = device_ran w)"
  by (simp add: load_pak_def Let_def split_beta device_ran_simps)

lemma load_paks_loop_device_ran:
  "device_ran (snd (snd (load_paks_loop env i ctrl w))) = device_ran w"
proof (induction env i ctrl w rule: load_paks_loop.induct)
  case (1 env i ctrl w)
  note pak = device_ran_load_pak [where env = env and c = "ctrl ! i" and w = w]
  show ?case
  proof (cases "i < 4")
    case False
    then show ?thesis
      by (subst load_paks_loop.simps) simp
  next
    case True
    show ?thesis
    proof (cases "load_pak env (ctrl ! i) w")
      case (Inl a)
      then show ?thesis
        using True pak
        by (subst load_paks_loop.simps) (simp add: split_beta)
    next
      case (Inr b)
      obtain c w' where b: "b = (c, w')"
        by (cases b)
      have "device_ran w' = device_ran w"
        using pak Inr b by simp
      moreover have "device_ran (snd (snd (load_paks_loop env (i + 1) (ctrl[i := c]) w')))
          = device_ran w'"
        using "1.IH" [OF True Inr b [symmetric]] by simp
      ultimately show ?thesis
        using True Inr b
        by (subst load_paks_loop.simps) simp
    qed
  qed
qed

lemma device_ran_load_paks:
  "device_ran (snd (snd (load_paks env ctrl w))) = device_ran w"
  by (simp add: load_paks_def load_paks_loop_device_ran)

lemma run_device_status:
  "fst (run_device env device nv w) = (if cen64_thread_create env \<noteq> 0 then 1 else 0)"
  by (simp add: run_device_def Let_def)

lemma device_ran_run_device:
  "device_ran (snd (snd (run_device env device nv w))) \<longleftrightarrow>
     cen64_thread_create env = 0 \<or> device_ran w"
  by (simp add: run_device_def Let_def device_ran_simps)

lemma fst_open_log_file:
  "fst (open_log_file fopen_w path w) = (if fopen_w path = None then 1 else 0)"
  by (simp add: open_log_file_def Let_def)

lemma cen64_main_from_paks_exit:
  assumes "\<not> device_ran w"
  shows "case cen64_main_from_paks env options r w of
           (status, w') \<Rightarrow>
             (status = EXIT_SUCCESS \<or> status = EXIT_FAILURE) \<and>
             (status = EXIT_SUCCESS \<longleftrightarrow> device_ran w') \<and>
             (device_ran w' \<longrightarrow> cen64_alloc env \<and> cen64_thread_create env = 0)"
  using assms
  by (simp add: cen64_main_from_paks_def Let_def split_beta device_ran_simps
      device_ran_load_paks run_device_status device_ran_run_device EXIT_SUCCESS_def
      EXIT_FAILURE_def split: option.splits)

lemma cen64_main_from_paks_status:
  assumes "\<not> device_ran w"
  shows "fst (cen64_main_from_paks env options r w) = 0 \<longleftrightarrow>
           device_ran (snd (cen64_main_from_paks env options r w))"
    and "fst (cen64_main_from_paks env options r w) = 1 \<longleftrightarrow>
           \<not> device_ran (snd (cen64_main_from_paks env options r w))"
  using cen64_main_from_paks_exit [OF assms, of env options r]
  by (auto simp: split_beta EXIT_SUCCESS_def EXIT_FAILURE_def)

lemma cen64_main_from_paks_ran_iff:
  assumes "\<not> device_ran w"
  shows "device_ran (snd (cen64_main_from_paks env options r w)) \<longleftrightarrow>
     (let (st_paks, ctrl, w1) = load_paks env (controller options) w;
          (st_eeprom, eeprom, created_eeprom) =
             open_save_opt env (eeprom_path options) (eeprom_size options);
          (st_sram, sram, created_sram) = open_save_opt env (sram_path options) 0x8000;
          (st_flashram, flashram, created) =
             open_save_opt env (flashram_path options) FLASHRAM_SIZE;
          flashram = (if flashram_path options \<noteq> None \<and> created
                      then flashram\<lparr>save_ptr := replicate FLASHRAM_SIZE 0xFF\<rparr>
                      else flashram)
      in st_paks = 0 \<and> st_eeprom = 0 \<and> st_sram = 0 \<and> st_flashram = 0 \<and>
         cen64_alloc env \<and>
         device_create env r eeprom sram flashram ctrl (no_audio options) (no_video options)
           \<noteq> None \<and>
         cen64_thread_create env = 0)"
  using assms
  by (simp add: cen64_main_from_paks_def Let_def split_beta device_ran_simps
      device_ran_load_paks run_device_status device_ran_run_device
      split: option.splits)

lemma load_pak_zero_controller: "load_pak env zero_controller w = Inr (zero_controller, w)"
  by (simp add: load_pak_def zero_controller_def)

lemma load_paks_zero_controllers:
  "load_paks env (replicate 4 zero_controller) w = (0, replicate 4 zero_controller, w)"
proof -
  have r: "replicate 4 zero_controller =
      [zero_controller, zero_controller, zero_controller, zero_controller]"
    by (simp add: numeral_eq_Suc)
  have n: "(4 :: nat) = Suc (Suc (Suc (Suc 0)))"
    by simp
  show ?thesis
    unfolding load_paks_def r
    by (simp add: load_paks_loop.simps [of _ 0] load_paks_loop.simps [of _ "Suc 0"]
        load_paks_loop.simps [of _ "Suc (Suc 0)"] load_paks_loop.simps [of _ "Suc (Suc (Suc 0))"]
        load_paks_loop.simps [of _ "Suc (Suc (Suc (Suc 0)))"]
        load_pak_zero_controller n)
qed

lemmas host_run_defs =
  cen64_main_def cen64_main_from_paks_def load_paks_zero_controllers host_def
  host_options_def host_rom_def argv_at_def load_roms_def validate_sha_def SHA1_SIZE_def
  open_save_opt_def run_device_def close_if_def EXIT_SUCCESS_def EXIT_FAILURE_def
  initial_world_def device_ran_def Let_def

text \<open>
  Claim C6 says that \<open>cen64_main\<close> returns 0 exactly when the initialisation and the
  device run succeed, and a nonzero code that tells the failed phase otherwise. A
  malformed cart database, a cart that does not open and a thread that is not created
  all give the exit code 1, and with \<open>argc = 1\<close> the exit code is 0 though no device
  has been run.
\<close>

theorem cen64_main_one_failure_code:
  "fst (cen64_main (host\<lparr>cart_db_is_well_formed := False\<rparr>) 3
          [''cen64'', ''pifrom.bin'', ''cart.z64''] initial_world) = 1 \<and>
   fst (cen64_main host 3 [''cen64'', ''pifrom.bin'', ''missing.z64''] initial_world) = 1 \<and>
   fst (cen64_main (host\<lparr>cen64_thread_create := 1\<rparr>) 3
          [''cen64'', ''pifrom.bin'', ''cart.z64''] initial_world) = 1 \<and>
   fst (cen64_main host 1 [''cen64''] initial_world) = 0 \<and>
   \<not> device_ran (snd (cen64_main host 1 [''cen64''] initial_world))"
  by (simp add: host_run_defs)

text \<open>
  Claim C6 as amended: \<open>cen64_main\<close> returns \<open>EXIT_SUCCESS\<close> (0) or \<open>EXIT_FAILURE\<close>
  (1) and nothing else. It returns 0 exactly when the device has been run to its end, or
  when \<open>argc < 3\<close> after the cart database check and the allocator initialisation (the
  usage is printed). The device is run to its end exactly when every phase succeeds: the
  cart database check, the allocator initialisation, the argument count, \<open>parse_options\<close>,
  \<open>load_roms\<close>, the opening of the log file, \<open>load_paks\<close>, the opening of the three
  save files, \<open>cen64_alloc\<close>, \<open>device_create\<close> and \<open>cen64_thread_create\<close>. So with
  \<open>argc \<ge> 3\<close> a failure of any phase gives the same code 1: the exit code does not tell
  the phase.
\<close>

theorem cen64_main_exit_codes:
  assumes "\<not> device_ran w"
  shows "case cen64_main env argc argv w of
           (status, w') \<Rightarrow>
             (status = EXIT_SUCCESS \<or> status = EXIT_FAILURE) \<and>
             (status = EXIT_SUCCESS \<longleftrightarrow>
                device_ran w' \<or>
                (cart_db_is_well_formed env \<and> cen64_alloc_init env = 0 \<and> argc < 3)) \<and>
             (device_ran w' \<longleftrightarrow>
                cart_db_is_well_formed env \<and> cen64_alloc_init env = 0 \<and> 3 \<le> argc \<and>
                (let options =
                       (default_cen64_options env)\<lparr>controller := replicate 4 zero_controller\<rparr>;
                     (st_parse, options) = parse_options env options (argc - 1) (drop 1 argv);
                     (st_roms, r, w1) =
                       load_roms env (ddipl_path options) (ddrom_path options)
                         (pifrom_path options) (cart_path options) zero_roms w;
                     (st_log, w2) =
                       (case log_path options of
                          None \<Rightarrow> (0, w1)
                        | Some path \<Rightarrow> open_log_file (fopen env) path w1);
                     w3 = (if 0x40 \<le> rom_size (cart r) then
                             (case cart_db_get_entry env (rom_ptr (cart r)) of
                                None \<Rightarrow> w2
                              | Some cart_info \<Rightarrow>
                                  LOG ''ROM,%s,%s,%s,%02X%02X%02X%02X,%02X%02X%02X%02X\<newline>''
                                    ([Arg_str (Some (rom_id cart_info)),
                                      Arg_str (Some (regions cart_info)),
                                      Arg_str (Some (description cart_info))] @
                                     map (\<lambda>i. Arg_byte (rom_ptr (cart r) ! i)) [0x10 ..< 0x18])
                                    (printf ''Detected cart: %s[%s] - %s\<newline>''
                                       [Arg_str (Some (rom_id cart_info)),
                                        Arg_str (Some (regions cart_info)),
                                        Arg_str (Some (description cart_info))] w2))
                           else w2);
                     (st_paks, ctrl, w4) = load_paks env (controller options) w3;
                     (st_eeprom, eeprom, created_eeprom) =
                       open_save_opt env (eeprom_path options) (eeprom_size options);
                     (st_sram, sram, created_sram) =
                       open_save_opt env (sram_path options) 0x8000;
                     (st_flashram, flashram, created) =
                       open_save_opt env (flashram_path options) FLASHRAM_SIZE;
                     flashram = (if flashram_path options \<noteq> None \<and> created
                                 then flashram\<lparr>save_ptr := replicate FLASHRAM_SIZE 0xFF\<rparr>
                                 else flashram)
                 in st_parse = 0 \<and> st_roms = 0 \<and> st_log = 0 \<and> st_paks = 0 \<and>
                    st_eeprom = 0 \<and> st_sram = 0 \<and> st_flashram = 0 \<and>
                    cen64_alloc env \<and>
                    device_create env r eeprom sram flashram ctrl
                      (no_audio options) (no_video options) \<noteq> None \<and>
                    cen64_thread_create env = 0))"
  using assms
  by (auto simp: cen64_main_def Let_def split_beta device_ran_simps device_ran_load_roms
      fst_open_log_file cen64_main_from_paks_status cen64_main_from_paks_ran_iff zero_roms_def
      EXIT_SUCCESS_def EXIT_FAILURE_def split: option.splits)

theorem cen64_main_exit_codes_witness:
  "\<not> device_ran initial_world \<and>
   fst (cen64_main host 3 [''cen64'', ''pifrom.bin'', ''cart.z64''] initial_world) = EXIT_SUCCESS \<and>
   device_ran (snd (cen64_main host 3 [''cen64'', ''pifrom.bin'', ''cart.z64''] initial_world))"
proof -
  have i: "\<not> device_ran initial_world"
    by (simp add: device_ran_def initial_world_def)
  have s: "fst (cen64_main host 3 [''cen64'', ''pifrom.bin'', ''cart.z64''] initial_world) = 0"
    by (simp add: host_run_defs)
  have a: "\<not> (3 :: int) < 3"
    by simp
  show ?thesis
    using i s a
      cen64_main_exit_codes [OF i, of host 3 "[''cen64'', ''pifrom.bin'', ''cart.z64'']"]
    by (simp add: split_beta EXIT_SUCCESS_def)
qed

end
